theory Spec2Isabelle
  imports Main
begin

section \<open>JavaScript values as the storage service sees them\<close>

text \<open>
  \<^verbatim>\<open>migrateData\<close> takes \<^verbatim>\<open>data: any\<close>, the result of \<^verbatim>\<open>JSON.parse\<close>. A value is
  one of the JSON shapes, or \<^verbatim>\<open>undefined\<close> (what reading a missing property gives).
  The type \<open>'n\<close> stands for the IEEE doubles of the source; no arithmetic is done on
  them. An object is the list of its own properties; a key is read at its first entry.
  A \<open>string\<close> stands for a JavaScript string: only equality, emptiness and concatenation
  of strings are used.
\<close>

datatype 'n jsval =
    JUndefined
  | JNull
  | JBool bool
  | JNum 'n
  | JStr string
  | JArr "'n jsval list"
  | JObj "(string \<times> 'n jsval) list"

datatype error = TypeError | SyntaxError | RemoteError

text \<open>
  The coercions of the JavaScript engine that the code can reach only on values no
  well-typed document holds are parameters of the model, together with the JSON codec and
  the network:
  \<^item> \<open>numberTruthy\<close>: \<^verbatim>\<open>ToBoolean\<close> of a number (false for zeros and NaN);
  \<^item> \<open>toStringExotic\<close>: \<^verbatim>\<open>ToString\<close> of a number, an array or an object inside a template
    literal (it throws a \<^verbatim>\<open>TypeError\<close> on an object whose \<^verbatim>\<open>toString\<close> and \<^verbatim>\<open>valueOf\<close> are
    not callable);
  \<^item> \<open>greaterThanZero\<close>: the comparison \<^verbatim>\<open>v > 0\<close> of an arbitrary value;
  \<^item> \<open>JSON_parse\<close>, \<open>JSON_stringify\<close>: the codec of the local store;
  \<^item> \<open>fetchParsed\<close>: \<^verbatim>\<open>githubRequest\<close> for the configured file, \<^verbatim>\<open>atob\<close> of its content and
    \<^verbatim>\<open>JSON.parse\<close> of the result; \<open>Inl\<close> when any of the three throws.
\<close>

record 'n host =
  numberTruthy :: "'n \<Rightarrow> bool"
  toStringExotic :: "'n jsval \<Rightarrow> error + string"
  greaterThanZero :: "'n jsval \<Rightarrow> error + bool"
  JSON_parse :: "string \<Rightarrow> error + 'n jsval"
  JSON_stringify :: "'n jsval \<Rightarrow> string"
  fetchParsed :: "'n jsval \<Rightarrow> error + 'n jsval"

text \<open>Sequencing of computations that may throw: the first exception wins.\<close>

definition bindE :: "error + 'a \<Rightarrow> ('a \<Rightarrow> error + 'b) \<Rightarrow> error + 'b" where
  "bindE m f = (case m of Inl e \<Rightarrow> Inl e | Inr v \<Rightarrow> f v)"

fun mapE :: "('a \<Rightarrow> error + 'b) \<Rightarrow> 'a list \<Rightarrow> error + 'b list" where
  "mapE f [] = Inr []"
| "mapE f (x # xs) =
     (case f x of
        Inl e \<Rightarrow> Inl e
      | Inr y \<Rightarrow> (case mapE f xs of Inl e \<Rightarrow> Inl e | Inr ys \<Rightarrow> Inr (y # ys)))"

text \<open>
  \<^verbatim>\<open>v.k\<close> for the keys the code reads (\<^verbatim>\<open>adamExercises\<close>, \<^verbatim>\<open>eliaExercises\<close>, \<^verbatim>\<open>logs\<close>,
  \<^verbatim>\<open>exercises\<close>, \<^verbatim>\<open>id\<close>), which no prototype defines: a \<^verbatim>\<open>TypeError\<close> on \<^verbatim>\<open>null\<close> and
  \<^verbatim>\<open>undefined\<close>, the own property of an object, \<^verbatim>\<open>undefined\<close> otherwise.
\<close>

definition getProp :: "'n jsval \<Rightarrow> string \<Rightarrow> error + 'n jsval" where
  "getProp v k =
     (case v of
        JUndefined \<Rightarrow> Inl TypeError
      | JNull \<Rightarrow> Inl TypeError
      | JObj ps \<Rightarrow> Inr (case map_of ps k of None \<Rightarrow> JUndefined | Some x \<Rightarrow> x)
      | _ \<Rightarrow> Inr JUndefined)"

definition truthy :: "'n host \<Rightarrow> 'n jsval \<Rightarrow> bool" where
  "truthy h v =
     (case v of
        JUndefined \<Rightarrow> False
      | JNull \<Rightarrow> False
      | JBool b \<Rightarrow> b
      | JNum n \<Rightarrow> numberTruthy h n
      | JStr s \<Rightarrow> s \<noteq> []
      | _ \<Rightarrow> True)"

text \<open>\<^verbatim>\<open>v || []\<close>\<close>

definition orEmpty :: "'n host \<Rightarrow> 'n jsval \<Rightarrow> 'n jsval" where
  "orEmpty h v = (if truthy h v then v else JArr [])"

text \<open>
  \<^verbatim>\<open>v.length > 0\<close>: arrays and strings have their length; numbers and booleans have no
  \<^verbatim>\<open>length\<close>, and \<^verbatim>\<open>undefined > 0\<close> is false; an object may own a \<^verbatim>\<open>length\<close> property of
  any value.
\<close>

definition lengthGtZero :: "'n host \<Rightarrow> 'n jsval \<Rightarrow> error + bool" where
  "lengthGtZero h v =
     (case v of
        JUndefined \<Rightarrow> Inl TypeError
      | JNull \<Rightarrow> Inl TypeError
      | JArr xs \<Rightarrow> Inr (xs \<noteq> [])
      | JStr s \<Rightarrow> Inr (s \<noteq> [])
      | JObj ps \<Rightarrow> (case map_of ps ''length'' of None \<Rightarrow> Inr False | Some l \<Rightarrow> greaterThanZero h l)
      | _ \<Rightarrow> Inr False)"

text \<open>\<^verbatim>\<open>`${v}`\<close>\<close>

definition toString :: "'n host \<Rightarrow> 'n jsval \<Rightarrow> error + string" where
  "toString h v =
     (case v of
        JUndefined \<Rightarrow> Inr ''undefined''
      | JNull \<Rightarrow> Inr ''null''
      | JBool b \<Rightarrow> Inr (if b then ''true'' else ''false'')
      | JStr s \<Rightarrow> Inr s
      | _ \<Rightarrow> toStringExotic h v)"

text \<open>Decimal numerals, the property names of array elements and string characters.\<close>

function decimal :: "nat \<Rightarrow> string" where
  "decimal n =
     (if n < 10 then [char_of (48 + n)]
      else decimal (n div 10) @ [char_of (48 + n mod 10)])"
  by pat_completeness auto
termination
  by (relation "measure (\<lambda>n. n)") auto

text \<open>\<^verbatim>\<open>{...e}\<close>: the own enumerable properties of \<open>e\<close>; none for a primitive but a string.\<close>

definition spread :: "'n jsval \<Rightarrow> (string \<times> 'n jsval) list" where
  "spread e =
     (case e of
        JObj ps \<Rightarrow> ps
      | JArr xs \<Rightarrow> zip (map decimal [0 ..< length xs]) xs
      | JStr s \<Rightarrow> zip (map decimal [0 ..< length s]) (map (\<lambda>c. JStr [c]) s)
      | _ \<Rightarrow> [])"

text \<open>A later property of an object literal overwrites an earlier one of the same name in place.\<close>

fun setProp :: "(string \<times> 'v) list \<Rightarrow> string \<Rightarrow> 'v \<Rightarrow> (string \<times> 'v) list" where
  "setProp [] k v = [(k, v)]"
| "setProp ((k', v') # ps) k v =
     (if k' = k then (k, v) # ps else (k', v') # setProp ps k v)"

text \<open>
  The arrow function \<^verbatim>\<open>e => ({ ...e, id: `adam_${e.id}` })\<close>, with the prefix as a
  parameter.
\<close>

definition namespaced :: "'n host \<Rightarrow> string \<Rightarrow> 'n jsval \<Rightarrow> error + 'n jsval" where
  "namespaced h p e =
     bindE (getProp e ''id'') (\<lambda>i.
     bindE (toString h i) (\<lambda>s.
     Inr (JObj (setProp (spread e) ''id'' (JStr (p @ s))))))"

text \<open>
  \<^verbatim>\<open>xs.map(f)\<close> on an arbitrary value: only an array has a callable \<^verbatim>\<open>map\<close> (an own
  \<^verbatim>\<open>map\<close> property of a parsed object is never a function).
\<close>

definition jsMap :: "('n jsval \<Rightarrow> error + 'n jsval) \<Rightarrow> 'n jsval \<Rightarrow> error + 'n jsval" where
  "jsMap f v =
     (case v of
        JArr xs \<Rightarrow> bindE (mapE f xs) (\<lambda>ys. Inr (JArr ys))
      | _ \<Rightarrow> Inl TypeError)"

text \<open>The object literal \<^verbatim>\<open>{ adamExercises, eliaExercises, logs }\<close>.\<close>

definition mkAppData :: "'n jsval \<Rightarrow> 'n jsval \<Rightarrow> 'n jsval \<Rightarrow> 'n jsval" where
  "mkAppData a e l = JObj [(''adamExercises'', a), (''eliaExercises'', e), (''logs'', l)]"

section \<open>Migration\<close>

text \<open>
  The guard of \<^verbatim>\<open>migrateData\<close> in \<^verbatim>\<open>src/unnamed/part_000\<close>:
  \<^verbatim>\<open>(adamExercises.length > 0 || eliaExercises.length > 0) || !data.exercises\<close>,
  evaluated left to right with short circuit.
\<close>

definition alreadyNewFormat :: "'n host \<Rightarrow> 'n jsval \<Rightarrow> 'n jsval \<Rightarrow> 'n jsval \<Rightarrow> error + bool" where
  "alreadyNewFormat h data adamExercises eliaExercises =
     bindE (lengthGtZero h adamExercises) (\<lambda>c1.
       if c1 then Inr True
       else bindE (lengthGtZero h eliaExercises) (\<lambda>c2.
         if c2 then Inr True
         else bindE (getProp data ''exercises'') (\<lambda>x. Inr (\<not> truthy h x))))"

text \<open>\<^verbatim>\<open>migrateData\<close> of \<^verbatim>\<open>src/unnamed/part_000\<close>.\<close>

definition migrateData :: "'n host \<Rightarrow> 'n jsval \<Rightarrow> error + 'n jsval" where
  "migrateData h data =
     bindE (getProp data ''adamExercises'') (\<lambda>a0.
     bindE (getProp data ''eliaExercises'') (\<lambda>e0.
     bindE (getProp data ''logs'') (\<lambda>l0.
     let adamExercises = orEmpty h a0;
         eliaExercises = orEmpty h e0;
         logs = orEmpty h l0
     in bindE (alreadyNewFormat h data adamExercises eliaExercises) (\<lambda>c.
          if c then Inr (mkAppData adamExercises eliaExercises logs)
          else
            bindE (getProp data ''exercises'') (\<lambda>x0.
            let sharedExercises = orEmpty h x0
            in bindE (jsMap (namespaced h ''adam_'') sharedExercises) (\<lambda>a.
               bindE (jsMap (namespaced h ''elia_'') sharedExercises) (\<lambda>e.
               Inr (mkAppData a e logs))))))))"

text \<open>
  \<^verbatim>\<open>migrateData\<close> of \<^verbatim>\<open>src/services/storage.ts\<close>: a document with both per-user
  properties truthy is returned as it is.
\<close>

definition migrateData_storage_ts :: "'n host \<Rightarrow> 'n jsval \<Rightarrow> error + 'n jsval" where
  "migrateData_storage_ts h data =
     bindE (getProp data ''adamExercises'') (\<lambda>a0.
     bindE (if truthy h a0 then getProp data ''eliaExercises'' else Inr a0) (\<lambda>c.
       if truthy h c then Inr data
       else
         bindE (getProp data ''exercises'') (\<lambda>x0.
         let sharedExercises = orEmpty h x0
         in bindE (jsMap (namespaced h ''adam_'') sharedExercises) (\<lambda>a.
            bindE (jsMap (namespaced h ''elia_'') sharedExercises) (\<lambda>e.
            bindE (getProp data ''logs'') (\<lambda>l0.
            Inr (mkAppData a e (orEmpty h l0))))))))"

section \<open>The typed document\<close>

text \<open>
  Modelled from the spec: the declarations of \<^verbatim>\<open>../types\<close> (\<^verbatim>\<open>User\<close>, \<^verbatim>\<open>Exercise\<close>,
  \<^verbatim>\<open>WorkoutSet\<close>, \<^verbatim>\<open>WorkoutLog\<close>, \<^verbatim>\<open>AppData\<close>) are not among the sources; the fields are
  those the spec lists and the code reads and writes. The fields \<^verbatim>\<open>id\<close>, \<^verbatim>\<open>name\<close> and
  \<^verbatim>\<open>category\<close> of an exercise are \<open>ex_id\<close>, \<open>ex_name\<close> and \<open>ex_category\<close>; the \<^verbatim>\<open>id\<close> of a
  set is \<open>set_id\<close> and that of a log \<open>log_id\<close>.
\<close>

datatype User = Adam | Elia

record Exercise =
  ex_id :: string
  ex_name :: string
  ex_category :: string

record 'n WorkoutSet =
  set_id :: string
  weight :: 'n
  reps :: 'n
  timestamp :: 'n

record 'n WorkoutLog =
  log_id :: string
  exerciseId :: string
  user :: User
  date :: string
  sets :: "'n WorkoutSet list"

record 'n AppData =
  adamExercises :: "Exercise list"
  eliaExercises :: "Exercise list"
  logs :: "'n WorkoutLog list"

text \<open>The JavaScript objects that typed values are, with the property order of the literals.\<close>

definition exerciseJson :: "Exercise \<Rightarrow> 'n jsval" where
  "exerciseJson e =
     JObj [(''id'', JStr (ex_id e)), (''name'', JStr (ex_name e)), (''category'', JStr (ex_category e))]"

definition userJson :: "User \<Rightarrow> 'n jsval" where
  "userJson u = JStr (case u of Adam \<Rightarrow> ''Adam'' | Elia \<Rightarrow> ''Elia'')"

definition setJson :: "'n WorkoutSet \<Rightarrow> 'n jsval" where
  "setJson s =
     JObj [(''id'', JStr (set_id s)), (''weight'', JNum (weight s)), (''reps'', JNum (reps s)),
           (''timestamp'', JNum (timestamp s))]"

definition logJson :: "'n WorkoutLog \<Rightarrow> 'n jsval" where
  "logJson l =
     JObj [(''id'', JStr (log_id l)), (''exerciseId'', JStr (exerciseId l)), (''user'', userJson (user l)),
           (''date'', JStr (date l)), (''sets'', JArr (map setJson (sets l)))]"

definition appDataJson :: "'n AppData \<Rightarrow> 'n jsval" where
  "appDataJson d =
     mkAppData (JArr (map exerciseJson (adamExercises d)))
               (JArr (map exerciseJson (eliaExercises d)))
               (JArr (map logJson (logs d)))"

section \<open>Seed data\<close>

definition DEFAULT_EXERCISES :: "Exercise list" where
  "DEFAULT_EXERCISES =
     [\<lparr>ex_id = ''ex_1'', ex_name = ''Bench Press'', ex_category = ''Chest''\<rparr>,
      \<lparr>ex_id = ''ex_2'', ex_name = ''Squat'', ex_category = ''Legs''\<rparr>,
      \<lparr>ex_id = ''ex_3'', ex_name = ''Deadlift'', ex_category = ''Back''\<rparr>,
      \<lparr>ex_id = ''ex_4'', ex_name = ''Overhead Press'', ex_category = ''Shoulders''\<rparr>]"

text \<open>
  On a typed exercise \<^verbatim>\<open>{ ...e, id: `adam_${e.id}` }\<close> is the exercise with the prefixed id
  (lemma \<open>namespaced_exerciseJson\<close> below relates it to \<open>namespaced\<close>).
\<close>

definition withPrefix :: "string \<Rightarrow> Exercise \<Rightarrow> Exercise" where
  "withPrefix p e = e\<lparr>ex_id := p @ ex_id e\<rparr>"

text \<open>
  \<open>SEED_DATA\<close> is the value the module constant has when the module is loaded. The
  constant names one object, which \<^verbatim>\<open>loadData\<close> hands out and the operations change in
  place: its contents at a later time are a component of the state below.
\<close>

definition SEED_DATA :: "'n AppData" where
  "SEED_DATA =
     \<lparr>adamExercises = map (withPrefix ''adam_'') DEFAULT_EXERCISES,
      eliaExercises = map (withPrefix ''elia_'') DEFAULT_EXERCISES,
      logs = []\<rparr>"

section \<open>Loading\<close>

definition STORAGE_KEY :: string where
  "STORAGE_KEY = ''ae_tracker_data''"

definition CONFIG_KEY :: string where
  "CONFIG_KEY = ''ae_tracker_config''"

text \<open>
  What \<^verbatim>\<open>loadData\<close> resolves to is an object: the module object \<^verbatim>\<open>SEED_DATA\<close> itself
  (\<^verbatim>\<open>dataCache = SEED_DATA; return dataCache\<close>), or an object that \<^verbatim>\<open>migrateData\<close> built or
  passed on from \<^verbatim>\<open>JSON.parse\<close>, which nothing else refers to.
\<close>

datatype 'n loaded = SeedObject | Parsed "'n jsval"

text \<open>
  The state the service owns: the contents of the module object \<^verbatim>\<open>SEED_DATA\<close>
  (\<open>appDataJson SEED_DATA\<close> when the module is loaded), the module variable \<^verbatim>\<open>dataCache\<close>
  (\<open>None\<close> for \<^verbatim>\<open>null\<close>) and the browser's \<^verbatim>\<open>localStorage\<close>. The remote file is not part
  of it: it is read through \<open>fetchParsed\<close>.
\<close>

record 'n state =
  seedObject :: "'n jsval"
  dataCache :: "'n loaded option"
  localStorage :: "string \<Rightarrow> string option"

text \<open>The value an object has in a state.\<close>

definition contents :: "'n state \<Rightarrow> 'n loaded \<Rightarrow> 'n jsval" where
  "contents s r = (case r of SeedObject \<Rightarrow> seedObject s | Parsed d \<Rightarrow> d)"

text \<open>\<^verbatim>\<open>s ? JSON.parse(s) : null\<close>: a missing and an empty item are both falsy.\<close>

definition getConfig :: "'n host \<Rightarrow> 'n state \<Rightarrow> error + 'n jsval" where
  "getConfig h s =
     (case localStorage s CONFIG_KEY of
        None \<Rightarrow> Inr JNull
      | Some t \<Rightarrow> if t = [] then Inr JNull else JSON_parse h t)"

text \<open>Steps 2 and 3 of \<^verbatim>\<open>loadData\<close>: the local copy, else the seed object.\<close>

definition loadLocal :: "'n host \<Rightarrow> 'n state \<Rightarrow> (error + 'n loaded) \<times> 'n state" where
  "loadLocal h s =
     (case localStorage s STORAGE_KEY of
        None \<Rightarrow> (Inr SeedObject, s\<lparr>dataCache := Some SeedObject\<rparr>)
      | Some t \<Rightarrow>
          if t = [] then (Inr SeedObject, s\<lparr>dataCache := Some SeedObject\<rparr>)
          else (case bindE (JSON_parse h t) (migrateData h) of
                  Inl e \<Rightarrow> (Inl e, s)
                | Inr d \<Rightarrow> (Inr (Parsed d), s\<lparr>dataCache := Some (Parsed d)\<rparr>)))"

text \<open>
  \<^verbatim>\<open>loadData\<close>: the result (\<open>Inl\<close> when the promise rejects) and the state after it. Any
  exception of the remote step is caught and leads to the local copy.
\<close>

definition loadData :: "'n host \<Rightarrow> 'n state \<Rightarrow> (error + 'n loaded) \<times> 'n state" where
  "loadData h s =
     (case getConfig h s of
        Inl e \<Rightarrow> (Inl e, s)
      | Inr config \<Rightarrow>
          if truthy h config then
            (case bindE (fetchParsed h config) (migrateData h) of
               Inr d \<Rightarrow>
                 (Inr (Parsed d),
                  s\<lparr>dataCache := Some (Parsed d),
                    localStorage := (localStorage s)(STORAGE_KEY \<mapsto> JSON_stringify h d)\<rparr>)
             | Inl e \<Rightarrow> loadLocal h s)
          else loadLocal h s)"

text \<open>
  \<^verbatim>\<open>saveData\<close>: the cache and the local copy are written first; \<^verbatim>\<open>getConfig\<close> may then
  throw. The remote write changes nothing in this state, and its failure is caught.
\<close>

definition saveData :: "'n host \<Rightarrow> 'n loaded \<Rightarrow> 'n state \<Rightarrow> (error + unit) \<times> 'n state" where
  "saveData h data s =
     (let s' = s\<lparr>dataCache := Some data,
                  localStorage := (localStorage s)(STORAGE_KEY \<mapsto> JSON_stringify h (contents s data))\<rparr>
      in (bindE (getConfig h s') (\<lambda>config. Inr ()), s'))"

section \<open>Domain operations\<close>

text \<open>
  Every operation is \<^verbatim>\<open>const data = await loadData(); ...; await saveData(data)\<close>. The
  definitions below are the step in between, on a typed document: \<open>data\<close> is the document
  that \<^verbatim>\<open>loadData\<close> resolved to, the result is the document handed to \<^verbatim>\<open>saveData\<close>.
  The arrays and objects inside a document are not shared with one another, so mutation
  in place is the update of one list element. The document itself is shared when it is
  the seed object: section \<open>An operation on the state\<close> has \<^verbatim>\<open>saveExercise\<close> as a whole.
\<close>

fun findIndex :: "('a \<Rightarrow> bool) \<Rightarrow> 'a list \<Rightarrow> nat option" where
  "findIndex P [] = None"
| "findIndex P (x # xs) = (if P x then Some 0 else map_option Suc (findIndex P xs))"

definition getExercisesForUser :: "User \<Rightarrow> 'n AppData \<Rightarrow> Exercise list" where
  "getExercisesForUser u data = (if u = Adam then adamExercises data else eliaExercises data)"

definition saveExercise :: "Exercise \<Rightarrow> User \<Rightarrow> 'n AppData \<Rightarrow> 'n AppData" where
  "saveExercise exercise u data =
     (let exercises = (if u = Adam then adamExercises data else eliaExercises data);
          exercises' = (case findIndex (\<lambda>e. ex_id e = ex_id exercise) exercises of
                          Some idx \<Rightarrow> exercises[idx := exercise]
                        | None \<Rightarrow> exercises @ [exercise])
      in if u = Adam then data\<lparr>adamExercises := exercises'\<rparr>
         else data\<lparr>eliaExercises := exercises'\<rparr>)"

definition deleteExercise :: "string \<Rightarrow> User \<Rightarrow> 'n AppData \<Rightarrow> 'n AppData" where
  "deleteExercise i u data =
     (if u = Adam then data\<lparr>adamExercises := filter (\<lambda>e. ex_id e \<noteq> i) (adamExercises data)\<rparr>
      else data\<lparr>eliaExercises := filter (\<lambda>e. ex_id e \<noteq> i) (eliaExercises data)\<rparr>)"

text \<open>
  \<^verbatim>\<open>[adamExercise?.id, eliaExercise?.id].filter(Boolean)\<close>: \<^verbatim>\<open>undefined\<close> (no exercise
  found) and the empty string are the falsy entries.
\<close>

definition matchingIds :: "string \<Rightarrow> 'n AppData \<Rightarrow> string list" where
  "matchingIds exerciseName data =
     (let adamExercise = find (\<lambda>e. ex_name e = exerciseName) (adamExercises data);
          eliaExercise = find (\<lambda>e. ex_name e = exerciseName) (eliaExercises data)
      in List.map_filter (\<lambda>i. case i of None \<Rightarrow> None | Some t \<Rightarrow> if t = [] then None else Some t)
           [map_option ex_id adamExercise, map_option ex_id eliaExercise])"

definition getLogsForComparison :: "string \<Rightarrow> 'n AppData \<Rightarrow> 'n WorkoutLog list" where
  "getLogsForComparison exerciseName data =
     filter (\<lambda>l. exerciseId l \<in> set (matchingIds exerciseName data)) (logs data)"

text \<open>
  The values \<^verbatim>\<open>addSet\<close> draws from \<^verbatim>\<open>Date.now()\<close> and \<^verbatim>\<open>Math.random()\<close>: the id and the
  timestamp of the new set, and the id of a new log.
\<close>

record 'n fresh =
  freshSetId :: string
  freshTimestamp :: 'n
  freshLogId :: string

text \<open>The test of \<^verbatim>\<open>find\<close> in \<^verbatim>\<open>addSet\<close>, and its two object literals.\<close>

definition sameKey :: "User \<Rightarrow> string \<Rightarrow> string \<Rightarrow> 'n WorkoutLog \<Rightarrow> bool" where
  "sameKey u exId dateStr l = (user l = u \<and> exerciseId l = exId \<and> date l = dateStr)"

definition newSet :: "'n fresh \<Rightarrow> 'n \<Rightarrow> 'n \<Rightarrow> 'n WorkoutSet" where
  "newSet g w r = \<lparr>set_id = freshSetId g, weight = w, reps = r, timestamp = freshTimestamp g\<rparr>"

definition newLog :: "'n fresh \<Rightarrow> User \<Rightarrow> string \<Rightarrow> string \<Rightarrow> 'n WorkoutSet list \<Rightarrow> 'n WorkoutLog" where
  "newLog g u exId dateStr ss =
     \<lparr>log_id = freshLogId g, exerciseId = exId, user = u, date = dateStr, sets = ss\<rparr>"

text \<open>
  \<^verbatim>\<open>find\<close> returns the first log that passes the test, and \<^verbatim>\<open>log.sets.push(newSet)\<close> changes
  that element of \<^verbatim>\<open>data.logs\<close>: the model finds its index.
\<close>

definition addSet ::
  "'n fresh \<Rightarrow> User \<Rightarrow> string \<Rightarrow> 'n \<Rightarrow> 'n \<Rightarrow> string \<Rightarrow> 'n AppData \<Rightarrow> 'n AppData" where
  "addSet g u exId w r dateStr data =
     (case findIndex (sameKey u exId dateStr) (logs data) of
        Some i \<Rightarrow>
          data\<lparr>logs := (logs data)[i := (logs data ! i)\<lparr>sets := sets (logs data ! i) @ [newSet g w r]\<rparr>]\<rparr>
      | None \<Rightarrow>
          data\<lparr>logs := logs data @ [newLog g u exId dateStr [newSet g w r]]\<rparr>)"

text \<open>
  \<^verbatim>\<open>deleteSet\<close>: the document after the call, and whether \<^verbatim>\<open>saveData\<close> was called with
  it (\<open>False\<close> is the early \<^verbatim>\<open>return\<close>).
\<close>

definition deleteSet :: "string \<Rightarrow> string \<Rightarrow> 'n AppData \<Rightarrow> 'n AppData \<times> bool" where
  "deleteSet logId setId data =
     (case findIndex (\<lambda>l. log_id l = logId) (logs data) of
        None \<Rightarrow> (data, False)
      | Some logIndex \<Rightarrow>
          let logs1 = (logs data)[logIndex :=
                 (logs data ! logIndex)\<lparr>sets := filter (\<lambda>s. set_id s \<noteq> setId) (sets (logs data ! logIndex))\<rparr>]
          in if sets (logs1 ! logIndex) = []
             then (data\<lparr>logs := filter (\<lambda>l. log_id l \<noteq> logId) logs1\<rparr>, True)
             else (data\<lparr>logs := logs1\<rparr>, True))"

section \<open>An operation on the state\<close>

text \<open>
  The body of \<^verbatim>\<open>saveExercise\<close> on the object that \<^verbatim>\<open>loadData\<close> returned, whatever it holds:
  \<^verbatim>\<open>findIndex\<close> exists on arrays only, \<^verbatim>\<open>e.id\<close> throws on \<^verbatim>\<open>null\<close>, and \<^verbatim>\<open>===\<close> with the
  string \<^verbatim>\<open>exercise.id\<close> holds for that string alone. On a typed document it is
  \<open>saveExercise\<close> (lemma \<open>saveExercise_js_typed\<close>).
\<close>

fun findIndexE :: "('a \<Rightarrow> error + bool) \<Rightarrow> 'a list \<Rightarrow> error + nat option" where
  "findIndexE P [] = Inr None"
| "findIndexE P (x # xs) =
     bindE (P x) (\<lambda>b.
       if b then Inr (Some 0)
       else bindE (findIndexE P xs) (\<lambda>r. Inr (map_option Suc r)))"

definition saveExercise_js :: "Exercise \<Rightarrow> User \<Rightarrow> 'n jsval \<Rightarrow> error + 'n jsval" where
  "saveExercise_js exercise u data =
     (let key = (if u = Adam then ''adamExercises'' else ''eliaExercises'')
      in bindE (getProp data key) (\<lambda>exercises.
           case exercises of
             JArr xs \<Rightarrow>
               bindE (findIndexE (\<lambda>e. bindE (getProp e ''id'') (\<lambda>i. Inr (i = JStr (ex_id exercise)))) xs)
                 (\<lambda>idx.
                   let xs' = (case idx of
                                Some i \<Rightarrow> xs[i := exerciseJson exercise]
                              | None \<Rightarrow> xs @ [exerciseJson exercise])
                   in Inr (case data of JObj ps \<Rightarrow> JObj (setProp ps key (JArr xs')) | _ \<Rightarrow> data))
           | _ \<Rightarrow> Inl TypeError))"

text \<open>
  The whole of \<^verbatim>\<open>saveExercise\<close>: load, change the loaded object in place, save it. When
  the loaded object is the seed object, it is the seed object that changes.
\<close>

definition saveExercise_op ::
  "'n host \<Rightarrow> Exercise \<Rightarrow> User \<Rightarrow> 'n state \<Rightarrow> (error + unit) \<times> 'n state" where
  "saveExercise_op h exercise u s =
     (case loadData h s of
        (Inl e, s1) \<Rightarrow> (Inl e, s1)
      | (Inr data, s1) \<Rightarrow>
          (case saveExercise_js exercise u (contents s1 data) of
             Inl e \<Rightarrow> (Inl e, s1)
           | Inr d \<Rightarrow>
               (case data of
                  SeedObject \<Rightarrow> saveData h SeedObject (s1\<lparr>seedObject := d\<rparr>)
                | Parsed d0 \<Rightarrow> saveData h (Parsed d) s1)))"

text \<open>The site's storage is cleared from outside (\<^verbatim>\<open>localStorage.clear()\<close>).\<close>

definition clearStorage :: "'n state \<Rightarrow> 'n state" where
  "clearStorage s = s\<lparr>localStorage := (\<lambda>k. None)\<rparr>"

section \<open>Shapes of a stored document, in the words of the specification\<close>

definition isArray :: "'n jsval \<Rightarrow> bool" where
  "isArray v = (case v of JArr xs \<Rightarrow> True | _ \<Rightarrow> False)"

definition nonEmptyArray :: "'n jsval \<Rightarrow> bool" where
  "nonEmptyArray v = (case v of JArr xs \<Rightarrow> xs \<noteq> [] | _ \<Rightarrow> False)"

text \<open>A property that holds an array, or is missing or \<^verbatim>\<open>null\<close>.\<close>

definition arrayOrMissing :: "'n jsval \<Rightarrow> bool" where
  "arrayOrMissing v =
     (case v of JArr xs \<Rightarrow> True | JUndefined \<Rightarrow> True | JNull \<Rightarrow> True | _ \<Rightarrow> False)"

text \<open>
  The current shape: an object with both per-user exercise sequences present (even if
  empty) and no top-level \<^verbatim>\<open>exercises\<close> property.
\<close>

definition currentShape :: "'n jsval \<Rightarrow> bool" where
  "currentShape data =
     (case data of
        JObj ps \<Rightarrow>
          (case map_of ps ''adamExercises'' of None \<Rightarrow> False | Some a \<Rightarrow> isArray a)
          \<and> (case map_of ps ''eliaExercises'' of None \<Rightarrow> False | Some e \<Rightarrow> isArray e)
          \<and> map_of ps ''exercises'' = None
      | _ \<Rightarrow> False)"

text \<open>
  The legacy shape: an object with a shared \<^verbatim>\<open>exercises\<close> list of typed exercises and no
  per-user property.
\<close>

definition legacyShape :: "Exercise list \<Rightarrow> 'n jsval \<Rightarrow> bool" where
  "legacyShape es data =
     (case data of
        JObj ps \<Rightarrow>
          map_of ps ''adamExercises'' = None \<and> map_of ps ''eliaExercises'' = None
          \<and> map_of ps ''exercises'' = Some (JArr (map exerciseJson es))
      | _ \<Rightarrow> False)"

text \<open>
  The comparison query in the words of the specification: the exercise with the given
  name is resolved for each user, the ids of the resolved exercises are collected, and the
  logs whose \<^verbatim>\<open>exerciseId\<close> is among them are returned.
\<close>

definition resolvedIds :: "string \<Rightarrow> 'n AppData \<Rightarrow> string list" where
  "resolvedIds exerciseName data =
     (case find (\<lambda>e. ex_name e = exerciseName) (adamExercises data) of
        None \<Rightarrow> [] | Some e \<Rightarrow> [ex_id e])
     @ (case find (\<lambda>e. ex_name e = exerciseName) (eliaExercises data) of
        None \<Rightarrow> [] | Some e \<Rightarrow> [ex_id e])"

definition comparisonSpec :: "string \<Rightarrow> 'n AppData \<Rightarrow> 'n WorkoutLog list" where
  "comparisonSpec exerciseName data =
     filter (\<lambda>l. exerciseId l \<in> set (resolvedIds exerciseName data)) (logs data)"

section \<open>A host for the closed examples\<close>

text \<open>
  Numbers are integers, nothing exotic converts, the local store holds no parsable text
  and the network is down. The examples below hold strings, arrays and objects only and
  start from an empty store, so none of them reaches a field of this host.
\<close>

definition exampleHost :: "int host" where
  "exampleHost =
     \<lparr>numberTruthy = (\<lambda>n. n \<noteq> 0),
      toStringExotic = (\<lambda>v. Inl TypeError),
      greaterThanZero = (\<lambda>v. Inr False),
      JSON_parse = (\<lambda>t. Inl SyntaxError),
      JSON_stringify = (\<lambda>v. []),
      fetchParsed = (\<lambda>c. Inl RemoteError)\<rparr>"

definition squat :: Exercise where
  "squat = \<lparr>ex_id = ''ex_1'', ex_name = ''Squat'', ex_category = ''Legs''\<rparr>"

definition row :: Exercise where
  "row = \<lparr>ex_id = ''a1'', ex_name = ''Row'', ex_category = ''Back''\<rparr>"

definition press :: Exercise where
  "press = \<lparr>ex_id = ''e1'', ex_name = ''Press'', ex_category = ''Shoulders''\<rparr>"

text \<open>A document of the current shape without \<^verbatim>\<open>logs\<close>.\<close>

definition currentDocument :: "int jsval" where
  "currentDocument =
     JObj [(''adamExercises'', JArr []), (''eliaExercises'', JArr [exerciseJson row])]"

text \<open>A legacy document with one shared exercise.\<close>

definition legacyDocument :: "int jsval" where
  "legacyDocument = JObj [(''exercises'', JArr [exerciseJson squat])]"

text \<open>Documents outside the current shape: a legacy list beside per-user lists.\<close>

definition bothListsDocument :: "int jsval" where
  "bothListsDocument =
     JObj [(''adamExercises'', JArr [exerciseJson row]), (''eliaExercises'', JArr [exerciseJson press]),
           (''exercises'', JArr [exerciseJson squat]), (''logs'', JArr [])]"

definition mixedDocument :: "int jsval" where
  "mixedDocument =
     JObj [(''adamExercises'', JArr [exerciseJson row]), (''exercises'', JArr [exerciseJson squat])]"

definition emptyListsDocument :: "int jsval" where
  "emptyListsDocument =
     JObj [(''adamExercises'', JArr []), (''eliaExercises'', JArr []),
           (''exercises'', JArr [exerciseJson squat])]"

text \<open>
  States with no stored configuration and no local copy: the first with the seed object
  as the module built it, the second with the seed object as \<^verbatim>\<open>saveExercise\<close> of one more
  exercise for Adam left it.
\<close>

definition freshState :: "int state" where
  "freshState =
     \<lparr>seedObject = appDataJson SEED_DATA, dataCache = None, localStorage = (\<lambda>k. None)\<rparr>"

definition mutatedSeedState :: "int state" where
  "mutatedSeedState =
     \<lparr>seedObject = appDataJson (saveExercise row Adam SEED_DATA), dataCache = Some SeedObject,
      localStorage = (\<lambda>k. None)\<rparr>"

text \<open>Typed documents, and values drawn by two calls of \<^verbatim>\<open>addSet\<close>.\<close>

definition emptyDocument :: "int AppData" where
  "emptyDocument = \<lparr>adamExercises = [], eliaExercises = [], logs = []\<rparr>"

definition fresh1 :: "int fresh" where
  "fresh1 = \<lparr>freshSetId = ''s1'', freshTimestamp = 1704067200000, freshLogId = ''1704067200000''\<rparr>"

definition fresh2 :: "int fresh" where
  "fresh2 = \<lparr>freshSetId = ''s2'', freshTimestamp = 1704067260000, freshLogId = ''1704067260000''\<rparr>"

definition oneLogDocument :: "int AppData" where
  "oneLogDocument =
     \<lparr>adamExercises = [\<lparr>ex_id = ''adam_ex_2'', ex_name = ''Squat'', ex_category = ''Legs''\<rparr>],
      eliaExercises = [],
      logs = [\<lparr>log_id = ''1704067200000'', exerciseId = ''adam_ex_2'', user = Adam, date = ''2024-01-01'',
               sets = [\<lparr>set_id = ''s1'', weight = 100, reps = 5, timestamp = 1704067200000\<rparr>]\<rparr>]\<rparr>"

text \<open>The same document with the empty string as the id of the exercise.\<close>

definition emptyIdDocument :: "int AppData" where
  "emptyIdDocument =
     \<lparr>adamExercises = [\<lparr>ex_id = [], ex_name = ''Squat'', ex_category = ''Legs''\<rparr>],
      eliaExercises = [],
      logs = [\<lparr>log_id = ''1704067200000'', exerciseId = [], user = Adam, date = ''2024-01-01'',
               sets = [\<lparr>set_id = ''s1'', weight = 100, reps = 5, timestamp = 1704067200000\<rparr>]\<rparr>]\<rparr>"

section \<open>Basic facts about the JavaScript layer\<close>

lemma bindE_Inr [simp]: "bindE (Inr v) f = f v"
  by (simp add: bindE_def)

lemma bindE_Inl [simp]: "bindE (Inl e) f = Inl e"
  by (simp add: bindE_def)

lemma truthy_orEmpty [simp]: "truthy h (orEmpty h v)"
  by (simp add: orEmpty_def truthy_def)

lemma orEmpty_truthy: "truthy h v \<Longrightarrow> orEmpty h v = v"
  by (simp add: orEmpty_def)

lemma truthy_JArr [simp]: "truthy h (JArr xs)"
  by (simp add: truthy_def)

lemma lengthGtZero_JArr [simp]: "lengthGtZero h (JArr xs) = Inr (xs \<noteq> [])"
  by (simp add: lengthGtZero_def)

lemma getProp_mkAppData:
  "getProp (mkAppData a e l) ''adamExercises'' = Inr a"
  "getProp (mkAppData a e l) ''eliaExercises'' = Inr e"
  "getProp (mkAppData a e l) ''logs'' = Inr l"
  "getProp (mkAppData a e l) ''exercises'' = Inr JUndefined"
  by (simp_all add: getProp_def mkAppData_def)

lemma jsMap_Inr: "jsMap f v = Inr y \<Longrightarrow> \<exists>ys. y = JArr ys"
  by (auto simp: jsMap_def bindE_def split: jsval.splits sum.splits)

section \<open>Migration is idempotent\<close>

text \<open>
  A document built by the object literal has no \<^verbatim>\<open>exercises\<close> property, so the guard
  holds on it as soon as the two length tests do not throw.
\<close>

lemma alreadyNewFormat_mkAppData:
  "alreadyNewFormat h data a e = Inr c \<Longrightarrow> alreadyNewFormat h (mkAppData a' e' l') a e = Inr True"
  by (auto simp: alreadyNewFormat_def bindE_def getProp_mkAppData truthy_def
           split: sum.splits if_splits)

lemma alreadyNewFormat_arrays:
  "alreadyNewFormat h (mkAppData a' e' l') (JArr xs) (JArr ys) = Inr True"
  by (simp add: alreadyNewFormat_def getProp_mkAppData truthy_def)

lemma migrateData_fixed:
  assumes "truthy h a" and "truthy h e" and "truthy h l"
    and "alreadyNewFormat h (mkAppData a e l) a e = Inr True"
  shows "migrateData h (mkAppData a e l) = Inr (mkAppData a e l)"
  using assms by (simp add: migrateData_def getProp_mkAppData orEmpty_truthy)

lemma migrateData_idem_Inr:
  assumes "migrateData h x = Inr y"
  shows "migrateData h y = Inr y"
  using assms unfolding migrateData_def[of h x]
  apply (auto simp: bindE_def Let_def split: sum.splits if_splits)
   apply (rule migrateData_fixed; simp add: alreadyNewFormat_mkAppData)
  apply (auto dest!: jsMap_Inr intro!: migrateData_fixed simp: alreadyNewFormat_arrays)
  done

lemma migrateData_storage_ts_idem_Inr:
  assumes "migrateData_storage_ts h x = Inr y"
  shows "migrateData_storage_ts h y = Inr y"
  using assms unfolding migrateData_storage_ts_def[of h x]
  apply (auto simp: bindE_def Let_def split: sum.splits if_splits)
   apply (auto simp: migrateData_storage_ts_def bindE_def)[1]
  apply (auto dest!: jsMap_Inr simp: migrateData_storage_ts_def getProp_mkAppData)
  done

text \<open>
  C6. Migration is idempotent: for every input \<open>x\<close>, migrating the result of a migration
  gives that result again; when the first migration throws, so does the composition, with
  the same exception. Equality is equality of values (each call allocates fresh objects).
  This holds for \<^verbatim>\<open>migrateData\<close> of both source files, for every behaviour of the
  engine's coercions.
\<close>

theorem migrateData_idempotent:
  "bindE (migrateData h x) (migrateData h) = migrateData h x
   \<and> bindE (migrateData_storage_ts h x) (migrateData_storage_ts h) = migrateData_storage_ts h x"
  by (cases "migrateData h x"; cases "migrateData_storage_ts h x")
     (simp_all add: migrateData_idem_Inr migrateData_storage_ts_idem_Inr)

section \<open>Where migration throws\<close>

lemma getProp_JObj:
  "getProp (JObj ps) k = Inr (case map_of ps k of None \<Rightarrow> JUndefined | Some x \<Rightarrow> x)"
  by (simp add: getProp_def)

lemma map_of_setProp: "map_of (setProp ps k v) k' = (if k' = k then Some v else map_of ps k')"
  by (induction ps k v rule: setProp.induct) auto

lemma namespaced_exerciseJson:
  "namespaced h p (exerciseJson e) = Inr (exerciseJson (withPrefix p e))"
  by (simp add: namespaced_def exerciseJson_def withPrefix_def getProp_def toString_def spread_def)

text \<open>
  On any object with a string id, the arrow function changes the \<^verbatim>\<open>id\<close> property and no
  other.
\<close>

lemma namespaced_object:
  assumes "map_of ps ''id'' = Some (JStr i)"
  shows "namespaced h p (JObj ps) = Inr (JObj (setProp ps ''id'' (JStr (p @ i))))"
    and "map_of (setProp ps ''id'' (JStr (p @ i))) k =
           (if k = ''id'' then Some (JStr (p @ i)) else map_of ps k)"
  using assms
  by (simp_all add: namespaced_def getProp_def toString_def spread_def map_of_setProp)

lemma mapE_namespaced:
  "mapE (namespaced h p) (map exerciseJson es) = Inr (map exerciseJson (map (withPrefix p) es))"
  by (induction es) (simp_all add: namespaced_exerciseJson)

lemma jsMap_namespaced:
  "jsMap (namespaced h p) (JArr (map exerciseJson es)) =
     Inr (JArr (map exerciseJson (map (withPrefix p) es)))"
  by (simp add: jsMap_def mapE_namespaced)

text \<open>
  C1. The statement is that \<^verbatim>\<open>migrateData\<close> returns a document for every input, \<^verbatim>\<open>null\<close>
  and objects with non-array fields included. The code does not: on \<^verbatim>\<open>null\<close> the first
  property read \<^verbatim>\<open>data.adamExercises\<close> throws a \<^verbatim>\<open>TypeError\<close> (in both source files); on
  \<^verbatim>\<open>{"exercises": true}\<close> the call \<^verbatim>\<open>sharedExercises.map\<close> throws; and on
  \<^verbatim>\<open>{"adamExercises": "x"}\<close> the result holds a string where the comment of the code
  promises a valid array.
\<close>

theorem migrateData_throws_on_null:
  "migrateData h JNull = Inl TypeError
   \<and> migrateData_storage_ts h JNull = Inl TypeError
   \<and> migrateData h (JObj [(''exercises'', JBool True)]) = Inl TypeError
   \<and> migrateData_storage_ts h (JObj [(''exercises'', JBool True)]) = Inl TypeError
   \<and> migrateData h (JObj [(''adamExercises'', JStr ''x'')]) =
       Inr (mkAppData (JStr ''x'') (JArr []) (JArr []))"
  by (simp add: migrateData_def migrateData_storage_ts_def getProp_def orEmpty_def truthy_def
        alreadyNewFormat_def lengthGtZero_def jsMap_def Let_def)

text \<open>
  The exception reaches the caller of \<^verbatim>\<open>loadData\<close> when the local copy is the text
  \<^verbatim>\<open>null\<close>: the second step of \<^verbatim>\<open>loadData\<close> has no \<^verbatim>\<open>try\<close>.
\<close>

lemma loadData_rejects_null:
  assumes "localStorage s CONFIG_KEY = None"
    and "localStorage s STORAGE_KEY = Some t" and "t \<noteq> []"
    and "JSON_parse h t = Inr JNull"
  shows "loadData h s = (Inl TypeError, s)"
  using assms
  by (simp add: loadData_def getConfig_def loadLocal_def truthy_def migrateData_def getProp_def)

text \<open>
  Outside these cases the function returns: on an object whose per-user properties are
  arrays or missing and whose \<^verbatim>\<open>exercises\<close> is falsy or a list of typed exercises. The
  least result is the empty document.
\<close>

lemma orEmpty_arrayOrMissing:
  "arrayOrMissing v \<Longrightarrow> \<exists>xs. orEmpty h v = JArr xs \<and> (xs \<noteq> [] \<longleftrightarrow> nonEmptyArray v)"
  by (auto simp: arrayOrMissing_def orEmpty_def truthy_def nonEmptyArray_def split: jsval.splits)

lemma alreadyNewFormat_value:
  assumes "getProp data ''exercises'' = Inr x0" and "arrayOrMissing a0" and "arrayOrMissing e0"
  shows "alreadyNewFormat h data (orEmpty h a0) (orEmpty h e0) =
           Inr (nonEmptyArray a0 \<or> nonEmptyArray e0 \<or> \<not> truthy h x0)"
proof -
  obtain xs where a: "orEmpty h a0 = JArr xs" "xs \<noteq> [] \<longleftrightarrow> nonEmptyArray a0"
    using orEmpty_arrayOrMissing[OF assms(2)] by blast
  obtain ys where e: "orEmpty h e0 = JArr ys" "ys \<noteq> [] \<longleftrightarrow> nonEmptyArray e0"
    using orEmpty_arrayOrMissing[OF assms(3)] by blast
  show ?thesis
    using a e assms(1) by (auto simp: alreadyNewFormat_def)
qed

lemma migrateData_returns:
  assumes "getProp (JObj ps) ''adamExercises'' = Inr a0"
    and "getProp (JObj ps) ''eliaExercises'' = Inr e0"
    and "getProp (JObj ps) ''exercises'' = Inr x0"
    and "arrayOrMissing a0" and "arrayOrMissing e0"
    and "\<not> truthy h x0 \<or> x0 = JArr (map exerciseJson es)"
  shows "\<exists>y. migrateData h (JObj ps) = Inr y"
proof -
  have g: "alreadyNewFormat h (JObj ps) (orEmpty h a0) (orEmpty h e0) =
             Inr (nonEmptyArray a0 \<or> nonEmptyArray e0 \<or> \<not> truthy h x0)"
    using assms(3-5) by (rule alreadyNewFormat_value)
  show ?thesis
  proof (cases "nonEmptyArray a0 \<or> nonEmptyArray e0 \<or> \<not> truthy h x0")
    case True
    with g assms(1,2) show ?thesis
      by (simp add: migrateData_def getProp_JObj Let_def)
  next
    case False
    with assms(6) have x: "x0 = JArr (map exerciseJson es)" by simp
    from False g assms(1-3) show ?thesis
      by (simp add: migrateData_def getProp_JObj Let_def x orEmpty_def jsMap_namespaced)
  qed
qed

lemma migrateData_empty:
  "migrateData h (JObj []) = Inr (mkAppData (JArr []) (JArr []) (JArr []))"
  "migrateData_storage_ts h (JObj []) = Inr (mkAppData (JArr []) (JArr []) (JArr []))"
  by (simp_all add: migrateData_def migrateData_storage_ts_def getProp_def orEmpty_def truthy_def
        alreadyNewFormat_def jsMap_def Let_def)

text \<open>A boolean, a number, a string or an array is migrated to the empty document.\<close>

lemma migrateData_not_an_object:
  assumes "data \<noteq> JNull" and "data \<noteq> JUndefined" and "\<forall>ps. data \<noteq> JObj ps"
  shows "migrateData h data = Inr (mkAppData (JArr []) (JArr []) (JArr []))"
    and "migrateData_storage_ts h data = Inr (mkAppData (JArr []) (JArr []) (JArr []))"
  using assms
  by (cases data;
      simp add: migrateData_def migrateData_storage_ts_def getProp_def orEmpty_def truthy_def
        alreadyNewFormat_def jsMap_def Let_def)+

section \<open>The pass-through branch\<close>

lemma migrateData_storage_ts_as_is:
  assumes "getProp data ''adamExercises'' = Inr a0" and "getProp data ''eliaExercises'' = Inr e0"
    and "truthy h a0" and "truthy h e0"
  shows "migrateData_storage_ts h data = Inr data"
  using assms by (simp add: migrateData_storage_ts_def)

text \<open>
  C2, as amended. For every document of the current shape \<^verbatim>\<open>migrateData\<close> of
  \<^verbatim>\<open>src/unnamed/part_000\<close> returns the two per-user sequences unchanged and \<^verbatim>\<open>logs\<close>, a
  missing \<^verbatim>\<open>logs\<close> replaced by the empty sequence. The pass-through branch is not confined
  to the current shape: it is also taken when both per-user sequences are non-empty
  arrays, whatever \<^verbatim>\<open>exercises\<close> holds, and when \<^verbatim>\<open>exercises\<close> is missing or falsy, a missing
  per-user sequence then being replaced by the empty one. A document with a legacy list
  whose per-user sequences are both missing or empty is split instead. In
  \<^verbatim>\<open>src/services/storage.ts\<close> a document with \<^verbatim>\<open>logs\<close> that has the current shape, or two
  non-empty per-user sequences, is returned as it is. Nothing is said here of a document
  with a legacy list and exactly one non-empty per-user sequence, nor of a document
  without \<^verbatim>\<open>logs\<close> in \<^verbatim>\<open>src/services/storage.ts\<close>.
\<close>

theorem migrateData_pass_through:
  assumes "getProp data ''adamExercises'' = Inr a0"
    and "getProp data ''eliaExercises'' = Inr e0"
    and "getProp data ''logs'' = Inr l0"
    and "getProp data ''exercises'' = Inr x0"
    and "arrayOrMissing a0" and "arrayOrMissing e0"
  shows "(currentShape data \<longrightarrow>
            migrateData h data = Inr (mkAppData a0 e0 (orEmpty h l0)))
         \<and> (nonEmptyArray a0 \<and> nonEmptyArray e0 \<longrightarrow>
              migrateData h data = Inr (mkAppData a0 e0 (orEmpty h l0)))
         \<and> (\<not> truthy h x0 \<longrightarrow>
              migrateData h data = Inr (mkAppData (orEmpty h a0) (orEmpty h e0) (orEmpty h l0)))
         \<and> (\<not> nonEmptyArray a0 \<and> \<not> nonEmptyArray e0 \<and> truthy h x0 \<longrightarrow>
              migrateData h data =
                bindE (jsMap (namespaced h ''adam_'') x0) (\<lambda>a.
                bindE (jsMap (namespaced h ''elia_'') x0) (\<lambda>e.
                Inr (mkAppData a e (orEmpty h l0)))))
         \<and> ((currentShape data \<or> nonEmptyArray a0 \<and> nonEmptyArray e0) \<and> truthy h l0 \<longrightarrow>
              migrateData_storage_ts h data = Inr data)"
proof -
  have g: "alreadyNewFormat h data (orEmpty h a0) (orEmpty h e0) =
             Inr (nonEmptyArray a0 \<or> nonEmptyArray e0 \<or> \<not> truthy h x0)"
    using assms(4-6) by (rule alreadyNewFormat_value)
  have p: "migrateData h data = Inr (mkAppData (orEmpty h a0) (orEmpty h e0) (orEmpty h l0))"
    if "nonEmptyArray a0 \<or> nonEmptyArray e0 \<or> \<not> truthy h x0"
    using that g assms(1-3) by (simp add: migrateData_def Let_def)
  have arr: "orEmpty h v = v" "truthy h v" if "isArray v" for v :: "'a jsval"
    using that by (auto simp: isArray_def orEmpty_def truthy_def split: jsval.splits)
  have ne: "isArray v" if "nonEmptyArray v" for v :: "'a jsval"
    using that by (auto simp: isArray_def nonEmptyArray_def split: jsval.splits)
  have cs: "isArray a0 \<and> isArray e0 \<and> x0 = JUndefined" if "currentShape data"
  proof -
    from that obtain ps where d: "data = JObj ps"
      by (cases data) (simp_all add: currentShape_def)
    from that d assms(1,2,4) show ?thesis
      by (auto simp: currentShape_def getProp_JObj split: option.splits)
  qed
  have c: "migrateData h data = Inr (mkAppData a0 e0 (orEmpty h l0))" if "currentShape data"
  proof -
    from cs[OF that] have "orEmpty h a0 = a0" and "orEmpty h e0 = e0" and "\<not> truthy h x0"
      by (auto simp: arr truthy_def)
    with p show ?thesis by simp
  qed
  have b: "migrateData h data = Inr (mkAppData a0 e0 (orEmpty h l0))"
    if "nonEmptyArray a0 \<and> nonEmptyArray e0"
    using that p[of] arr(1)[OF ne, of a0] arr(1)[OF ne, of e0] by simp
  have m: "migrateData h data =
             bindE (jsMap (namespaced h ''adam_'') x0) (\<lambda>a.
             bindE (jsMap (namespaced h ''elia_'') x0) (\<lambda>e.
             Inr (mkAppData a e (orEmpty h l0))))"
    if "\<not> nonEmptyArray a0 \<and> \<not> nonEmptyArray e0 \<and> truthy h x0"
    using that g assms(1-4) by (simp add: migrateData_def Let_def orEmpty_truthy)
  have t: "migrateData_storage_ts h data = Inr data"
    if "(currentShape data \<or> nonEmptyArray a0 \<and> nonEmptyArray e0) \<and> truthy h l0"
  proof -
    from that cs ne have "isArray a0" and "isArray e0" by blast+
    then have "truthy h a0" and "truthy h e0" by (simp_all add: arr)
    with assms(1,2) show ?thesis by (rule migrateData_storage_ts_as_is)
  qed
  from p c b m t show ?thesis by blast
qed

theorem migrateData_pass_through_witness:
  "currentShape currentDocument
   \<and> migrateData exampleHost currentDocument =
       Inr (mkAppData (JArr []) (JArr [exerciseJson row]) (JArr []))
   \<and> migrateData exampleHost bothListsDocument =
       Inr (mkAppData (JArr [exerciseJson row]) (JArr [exerciseJson press]) (JArr []))
   \<and> migrateData_storage_ts exampleHost bothListsDocument = Inr bothListsDocument
   \<and> migrateData exampleHost emptyListsDocument =
       Inr (mkAppData (JArr [exerciseJson (withPrefix ''adam_'' squat)])
                      (JArr [exerciseJson (withPrefix ''elia_'' squat)]) (JArr []))"
  using migrateData_pass_through[of currentDocument "JArr []" "JArr [exerciseJson row]"
          JUndefined JUndefined exampleHost]
    migrateData_pass_through[of bothListsDocument "JArr [exerciseJson row]"
          "JArr [exerciseJson press]" "JArr []" "JArr [exerciseJson squat]" exampleHost]
    migrateData_pass_through[of emptyListsDocument "JArr []" "JArr []"
          JUndefined "JArr [exerciseJson squat]" exampleHost]
    jsMap_namespaced[of exampleHost _ "[squat]"]
  by (simp add: currentDocument_def bothListsDocument_def emptyListsDocument_def getProp_def
        arrayOrMissing_def nonEmptyArray_def isArray_def currentShape_def orEmpty_def truthy_def)

text \<open>
  C2 as stated fails in its last part: the pass-through branch is also taken outside the
  current shape. A document with two non-empty per-user lists and a legacy list is passed
  through by both source files, the legacy list ignored: in \<^verbatim>\<open>src/unnamed/part_000\<close> as
  its comment says (both arrays exist and are non-empty), in \<^verbatim>\<open>src/services/storage.ts\<close>
  because both properties are truthy.
\<close>

theorem pass_through_with_legacy_list:
  "\<not> currentShape bothListsDocument
   \<and> alreadyNewFormat exampleHost bothListsDocument
         (JArr [exerciseJson row]) (JArr [exerciseJson press]) = Inr True
   \<and> migrateData exampleHost bothListsDocument =
       Inr (mkAppData (JArr [exerciseJson row]) (JArr [exerciseJson press]) (JArr []))
   \<and> migrateData_storage_ts exampleHost bothListsDocument = Inr bothListsDocument"
  by (simp add: bothListsDocument_def currentShape_def migrateData_def
        migrateData_storage_ts_def getProp_def orEmpty_def truthy_def alreadyNewFormat_def
        lengthGtZero_def Let_def)

text \<open>
  Two behaviours that the statement above leaves out. The guard of
  \<^verbatim>\<open>src/unnamed/part_000\<close> joins the two length tests by \<^verbatim>\<open>||\<close> where its comment says
  "both user exercise arrays exist and are non-empty": a document with one per-user list
  and a legacy list is passed through, and the legacy list is lost. And
  \<^verbatim>\<open>src/services/storage.ts\<close> returns a document of the current shape without \<^verbatim>\<open>logs\<close> as it
  is, where its own legacy path writes \<^verbatim>\<open>logs: data.logs || []\<close>.
\<close>

lemma one_list_and_legacy_list:
  "migrateData h mixedDocument = Inr (mkAppData (JArr [exerciseJson row]) (JArr []) (JArr []))"
  by (simp add: mixedDocument_def migrateData_def getProp_def orEmpty_def truthy_def
        alreadyNewFormat_def lengthGtZero_def Let_def)

lemma storage_ts_leaves_logs_missing:
  "currentShape currentDocument"
  "migrateData_storage_ts h currentDocument = Inr currentDocument"
  "getProp currentDocument ''logs'' = Inr JUndefined"
  by (simp_all add: currentDocument_def currentShape_def isArray_def migrateData_storage_ts_def
        getProp_def truthy_def)

section \<open>The legacy split\<close>

text \<open>
  C7. For every legacy document (a shared \<^verbatim>\<open>exercises\<close> list of typed exercises, no
  per-user property) migration puts a copy of every shared exercise into both per-user
  sequences, in order; the id of a copy is the user's prefix followed by the original id,
  so the two copies of an exercise have different ids, and name and category are those of
  the original. Both source files agree on this.
\<close>

theorem migrateData_legacy_split:
  assumes "legacyShape es data" and "getProp data ''logs'' = Inr l0"
  shows "migrateData h data =
           Inr (mkAppData (JArr (map exerciseJson (map (withPrefix ''adam_'') es)))
                          (JArr (map exerciseJson (map (withPrefix ''elia_'') es)))
                          (orEmpty h l0))
         \<and> migrateData_storage_ts h data = migrateData h data
         \<and> map ex_id (map (withPrefix ''adam_'') es) = map (\<lambda>e. ''adam_'' @ ex_id e) es
         \<and> map ex_id (map (withPrefix ''elia_'') es) = map (\<lambda>e. ''elia_'' @ ex_id e) es
         \<and> map ex_name (map (withPrefix p) es) = map ex_name es
         \<and> map ex_category (map (withPrefix p) es) = map ex_category es
         \<and> ex_id (withPrefix ''adam_'' e) \<noteq> ex_id (withPrefix ''elia_'' e)"
proof -
  from assms(1) obtain ps where d: "data = JObj ps"
    by (cases data) (simp_all add: legacyShape_def)
  from assms d have f: "map_of ps ''adamExercises'' = None" "map_of ps ''eliaExercises'' = None"
    "map_of ps ''exercises'' = Some (JArr (map exerciseJson es))"
    "(case map_of ps ''logs'' of None \<Rightarrow> JUndefined | Some x \<Rightarrow> x) = l0"
    by (simp_all add: legacyShape_def getProp_JObj)
  have 1: "migrateData h data =
           Inr (mkAppData (JArr (map exerciseJson (map (withPrefix ''adam_'') es)))
                          (JArr (map exerciseJson (map (withPrefix ''elia_'') es)))
                          (orEmpty h l0))"
    using f by (simp add: d migrateData_def getProp_JObj orEmpty_def truthy_def
        alreadyNewFormat_def jsMap_namespaced Let_def)
  have 2: "migrateData_storage_ts h data =
           Inr (mkAppData (JArr (map exerciseJson (map (withPrefix ''adam_'') es)))
                          (JArr (map exerciseJson (map (withPrefix ''elia_'') es)))
                          (orEmpty h l0))"
    using f by (simp add: d migrateData_storage_ts_def getProp_JObj orEmpty_def truthy_def
        jsMap_namespaced Let_def)
  from 1 2 show ?thesis
    by (simp add: withPrefix_def comp_def)
qed

theorem migrateData_legacy_split_witness:
  "legacyShape [squat] legacyDocument
   \<and> migrateData exampleHost legacyDocument =
       Inr (mkAppData
         (JArr [JObj [(''id'', JStr ''adam_ex_1''), (''name'', JStr ''Squat''), (''category'', JStr ''Legs'')]])
         (JArr [JObj [(''id'', JStr ''elia_ex_1''), (''name'', JStr ''Squat''), (''category'', JStr ''Legs'')]])
         (JArr []))"
  using migrateData_legacy_split[of "[squat]" legacyDocument JUndefined exampleHost]
  by (simp add: legacyShape_def legacyDocument_def getProp_def orEmpty_def truthy_def
        exerciseJson_def withPrefix_def squat_def)

section \<open>Loading with an empty store\<close>

text \<open>
  As long as the seed object is as the module built it, \<^verbatim>\<open>loadData\<close> with no stored
  configuration and no local copy returns it with four exercises for each user and no
  log, caches it and leaves the local store as it was.
\<close>

lemma SEED_DATA_ids:
  "map ex_id (adamExercises (SEED_DATA :: 'n AppData)) =
     [''adam_ex_1'', ''adam_ex_2'', ''adam_ex_3'', ''adam_ex_4'']"
  "map ex_id (eliaExercises (SEED_DATA :: 'n AppData)) =
     [''elia_ex_1'', ''elia_ex_2'', ''elia_ex_3'', ''elia_ex_4'']"
  "logs (SEED_DATA :: 'n AppData) = []"
  by (simp_all add: SEED_DATA_def DEFAULT_EXERCISES_def withPrefix_def)

lemma loadData_seed_object:
  assumes "localStorage s CONFIG_KEY = None" and "localStorage s STORAGE_KEY = None"
  shows "loadData h s = (Inr SeedObject, s\<lparr>dataCache := Some SeedObject\<rparr>)"
    and "contents (snd (loadData h s)) SeedObject = seedObject s"
    and "localStorage (snd (loadData h s)) = localStorage s"
  using assms
  by (simp_all add: loadData_def getConfig_def loadLocal_def truthy_def contents_def)

lemma loadData_seed_pristine:
  assumes "localStorage s CONFIG_KEY = None" and "localStorage s STORAGE_KEY = None"
    and "seedObject s = appDataJson SEED_DATA"
  shows "fst (loadData h s) = Inr SeedObject \<and>
         contents (snd (loadData h s)) SeedObject = appDataJson SEED_DATA"
  using assms by (simp add: loadData_seed_object contents_def)

text \<open>On a typed document the body of \<^verbatim>\<open>saveExercise\<close> is the typed operation.\<close>

lemma findIndexE_typed:
  "findIndexE (\<lambda>e. bindE (getProp e ''id'') (\<lambda>i. Inr (i = JStr t))) (map exerciseJson es) =
     Inr (findIndex (\<lambda>e. ex_id e = t) es)"
  by (induction es) (simp_all add: getProp_def exerciseJson_def)

lemma saveExercise_js_typed:
  "saveExercise_js exercise u (appDataJson d) = Inr (appDataJson (saveExercise exercise u d))"
  by (cases u)
     (simp_all add: saveExercise_js_def saveExercise_def appDataJson_def mkAppData_def getProp_JObj
        findIndexE_typed Let_def map_update split: option.splits)

text \<open>
  C3. The statement is that \<^verbatim>\<open>loadData\<close>, with no stored configuration and no local copy,
  returns the built-in seed with exactly four exercises for each user. The code returns
  the module object \<^verbatim>\<open>SEED_DATA\<close> itself, which the operations change in place, where
  the other two paths of \<^verbatim>\<open>loadData\<close> return an object of their own. In the state that
  \<^verbatim>\<open>saveExercise\<close> of one more exercise for Adam and a cleared store leave, both keys are
  absent and \<^verbatim>\<open>loadData\<close> returns five exercises for Adam.
\<close>

theorem loadData_returns_mutated_seed:
  "localStorage mutatedSeedState CONFIG_KEY = None
   \<and> localStorage mutatedSeedState STORAGE_KEY = None
   \<and> fst (loadData h mutatedSeedState) = Inr SeedObject
   \<and> contents (snd (loadData h mutatedSeedState)) SeedObject =
       appDataJson (saveExercise row Adam SEED_DATA)
   \<and> map ex_id (adamExercises (saveExercise row Adam (SEED_DATA :: int AppData))) =
       [''adam_ex_1'', ''adam_ex_2'', ''adam_ex_3'', ''adam_ex_4'', ''a1'']"
  by (simp add: mutatedSeedState_def loadData_def getConfig_def loadLocal_def truthy_def
        contents_def saveExercise_def SEED_DATA_def DEFAULT_EXERCISES_def withPrefix_def row_def)

text \<open>
  That state is reached: in the fresh state the first \<^verbatim>\<open>saveExercise\<close> loads the seed
  object, appends to its list for Adam and saves it; clearing the store afterwards gives
  the state above.
\<close>

lemma saveExercise_op_mutates_seed:
  "fst (saveExercise_op h row Adam freshState) = Inr ()"
  "clearStorage (snd (saveExercise_op h row Adam freshState)) = mutatedSeedState"
  by (simp_all add: saveExercise_op_def freshState_def mutatedSeedState_def clearStorage_def
        loadData_def getConfig_def loadLocal_def truthy_def contents_def saveData_def
        saveExercise_js_typed Let_def STORAGE_KEY_def CONFIG_KEY_def)

section \<open>Searching a list\<close>

lemma findIndex_None: "findIndex P xs = None \<longleftrightarrow> (\<forall>x\<in>set xs. \<not> P x)"
  by (induction xs) auto

lemma findIndex_Some:
  "findIndex P xs = Some i \<Longrightarrow> i < length xs \<and> P (xs ! i) \<and> (\<forall>j<i. \<not> P (xs ! j))"
proof (induction xs arbitrary: i)
  case Nil
  then show ?case by simp
next
  case (Cons x xs)
  show ?case
  proof (cases "P x")
    case True
    with Cons.prems show ?thesis by simp
  next
    case False
    with Cons.prems obtain k where k: "findIndex P xs = Some k" "i = Suc k" by auto
    from Cons.IH[OF k(1)] False k(2) show ?thesis
      by (auto simp: less_Suc_eq_0_disj)
  qed
qed

lemma findIndex_snoc_new:
  "findIndex P xs = None \<Longrightarrow> P y \<Longrightarrow> findIndex P (xs @ [y]) = Some (length xs)"
  by (induction xs) (auto split: if_splits)

lemma filter_update_dropped:
  "i < length xs \<Longrightarrow> \<not> P (xs ! i) \<Longrightarrow> \<not> P y \<Longrightarrow> filter P (xs[i := y]) = filter P xs"
  by (induction xs arbitrary: i) (auto split: nat.splits)

lemma set_update_cases: "l \<in> set (xs[i := y]) \<Longrightarrow> l = y \<or> l \<in> set xs"
  by (meson insert_iff set_update_subset_insert subsetD)

section \<open>The exercise catalogs\<close>

text \<open>
  C9. \<^verbatim>\<open>deleteExercise\<close> removes from the named user's exercises exactly those with the
  given id, keeping the others in order, and leaves \<^verbatim>\<open>logs\<close> as it was: a log that refers
  to the removed id stays.
\<close>

theorem deleteExercise_keeps_logs:
  "getExercisesForUser u (deleteExercise i u data) =
     filter (\<lambda>e. ex_id e \<noteq> i) (getExercisesForUser u data)
   \<and> logs (deleteExercise i u data) = logs data"
  by (simp add: deleteExercise_def getExercisesForUser_def)

text \<open>
  C10. \<^verbatim>\<open>saveExercise\<close> and \<^verbatim>\<open>deleteExercise\<close> for one user leave the exercises of the other
  user as they were, and \<^verbatim>\<open>saveExercise\<close> leaves \<^verbatim>\<open>logs\<close> as it was.
\<close>

theorem catalog_mutations_frame:
  "eliaExercises (saveExercise exercise Adam data) = eliaExercises data
   \<and> adamExercises (saveExercise exercise Elia data) = adamExercises data
   \<and> eliaExercises (deleteExercise i Adam data) = eliaExercises data
   \<and> adamExercises (deleteExercise i Elia data) = adamExercises data
   \<and> logs (saveExercise exercise u data) = logs data"
  by (simp add: saveExercise_def deleteExercise_def Let_def)

section \<open>Adding a set\<close>

lemma addSet_existing:
  assumes "\<exists>l\<in>set (logs data). sameKey u exId d l"
  shows "\<exists>i<length (logs data). sameKey u exId d (logs data ! i)
           \<and> (\<forall>j<i. \<not> sameKey u exId d (logs data ! j))
           \<and> logs (addSet g u exId w r d data) =
               (logs data)[i := (logs data ! i)\<lparr>sets := sets (logs data ! i) @ [newSet g w r]\<rparr>]"
proof -
  from assms obtain i where i: "findIndex (sameKey u exId d) (logs data) = Some i"
    using findIndex_None[of "sameKey u exId d" "logs data"]
    by (cases "findIndex (sameKey u exId d) (logs data)") auto
  from findIndex_Some[OF i] i show ?thesis
    by (auto simp: addSet_def)
qed

lemma addSet_new:
  assumes "\<forall>l\<in>set (logs data). \<not> sameKey u exId d l"
  shows "logs (addSet g u exId w r d data) = logs data @ [newLog g u exId d [newSet g w r]]"
  using assms findIndex_None[of "sameKey u exId d" "logs data"] by (simp add: addSet_def)

lemma sameKey_newLog [simp]:
  "sameKey u exId d (newLog g u' exId' d' ss) \<longleftrightarrow> u = u' \<and> exId = exId' \<and> d = d'"
  by (auto simp: sameKey_def newLog_def)

lemma addSet_exercises:
  "adamExercises (addSet g u exId w r d data) = adamExercises data"
  "eliaExercises (addSet g u exId w r d data) = eliaExercises data"
  by (simp_all add: addSet_def split: option.splits)

lemma addSet_twice:
  assumes "\<forall>l\<in>set (logs data). \<not> sameKey u exId d l"
  shows "logs (addSet g2 u exId w2 r2 d (addSet g1 u exId w1 r1 d data)) =
           logs data @ [newLog g1 u exId d [newSet g1 w1 r1, newSet g2 w2 r2]]"
proof -
  have n: "findIndex (sameKey u exId d) (logs data) = None"
    using assms by (simp add: findIndex_None)
  have 1: "logs (addSet g1 u exId w1 r1 d data) = logs data @ [newLog g1 u exId d [newSet g1 w1 r1]]"
    using assms by (rule addSet_new)
  have "findIndex (sameKey u exId d) (logs (addSet g1 u exId w1 r1 d data)) = Some (length (logs data))"
    unfolding 1 using n by (rule findIndex_snoc_new) simp
  then show ?thesis
    by (simp add: addSet_def[of g2] 1 newLog_def)
qed

lemma addSet_keeps_key:
  "\<exists>l\<in>set (logs (addSet g u exId w r d data)). sameKey u exId d l"
proof (cases "\<exists>l\<in>set (logs data). sameKey u exId d l")
  case True
  from addSet_existing[OF True, of g w r] obtain i where
    i: "i < length (logs data)" "sameKey u exId d (logs data ! i)"
       "logs (addSet g u exId w r d data) =
          (logs data)[i := (logs data ! i)\<lparr>sets := sets (logs data ! i) @ [newSet g w r]\<rparr>]"
    by blast
  have "sameKey u exId d ((logs data ! i)\<lparr>sets := sets (logs data ! i) @ [newSet g w r]\<rparr>)"
    using i(2) by (simp add: sameKey_def)
  moreover have "(logs data ! i)\<lparr>sets := sets (logs data ! i) @ [newSet g w r]\<rparr>
      \<in> set (logs (addSet g u exId w r d data))"
    unfolding i(3) using i(1) by (simp add: set_update_memI)
  ultimately show ?thesis by blast
next
  case False
  then have "logs (addSet g u exId w r d data) = logs data @ [newLog g u exId d [newSet g w r]]"
    by (intro addSet_new) simp
  then show ?thesis by simp
qed

lemma addSet_other_date:
  assumes "d1 \<noteq> d2" and "\<forall>l\<in>set (logs data). \<not> sameKey u exId d2 l"
  shows "logs (addSet g2 u exId w2 r2 d2 (addSet g1 u exId w1 r1 d1 data)) =
           logs (addSet g1 u exId w1 r1 d1 data) @ [newLog g2 u exId d2 [newSet g2 w2 r2]]"
proof -
  have "\<forall>l\<in>set (logs (addSet g1 u exId w1 r1 d1 data)). \<not> sameKey u exId d2 l"
  proof (cases "findIndex (sameKey u exId d1) (logs data)")
    case None
    then show ?thesis using assms by (auto simp: addSet_def)
  next
    case (Some i)
    have "\<not> sameKey u exId d2 l"
      if "l \<in> set ((logs data)[i := (logs data ! i)\<lparr>sets := sets (logs data ! i) @ [newSet g1 w1 r1]\<rparr>])"
      for l
    proof -
      from that have "l = (logs data ! i)\<lparr>sets := sets (logs data ! i) @ [newSet g1 w1 r1]\<rparr>
          \<or> l \<in> set (logs data)"
        by (rule set_update_cases)
      moreover have "\<not> sameKey u exId d2 (logs data ! i)"
        using findIndex_Some[OF Some] assms(1) by (auto simp: sameKey_def)
      ultimately show ?thesis using assms(2) by (auto simp: sameKey_def)
    qed
    then show ?thesis using Some by (simp add: addSet_def)
  qed
  then show ?thesis by (rule addSet_new)
qed

text \<open>
  C4. If the document holds a log for (user, exercise id, date), \<^verbatim>\<open>addSet\<close> appends the new
  set to the first such log and changes nothing else; otherwise it appends one new log
  holding just that set. The exercises are untouched. Two calls with the same key, the
  second on the document the first one saved, on a document with no log for the key leave
  one new log with the two sets; a second call with another date, for which the document
  has no log, appends a second log, beside the log of the first date.
\<close>

theorem addSet_appends_or_creates:
  "((\<exists>l\<in>set (logs data). sameKey u exId d l) \<longrightarrow>
      (\<exists>i<length (logs data). sameKey u exId d (logs data ! i)
         \<and> (\<forall>j<i. \<not> sameKey u exId d (logs data ! j))
         \<and> logs (addSet g u exId w r d data) =
             (logs data)[i := (logs data ! i)\<lparr>sets := sets (logs data ! i) @ [newSet g w r]\<rparr>]))
   \<and> ((\<forall>l\<in>set (logs data). \<not> sameKey u exId d l) \<longrightarrow>
        logs (addSet g u exId w r d data) = logs data @ [newLog g u exId d [newSet g w r]])
   \<and> adamExercises (addSet g u exId w r d data) = adamExercises data
   \<and> eliaExercises (addSet g u exId w r d data) = eliaExercises data
   \<and> ((\<forall>l\<in>set (logs data). \<not> sameKey u exId d l) \<longrightarrow>
        logs (addSet g' u exId w' r' d (addSet g u exId w r d data)) =
          logs data @ [newLog g u exId d [newSet g w r, newSet g' w' r']])
   \<and> (d \<noteq> d' \<and> (\<forall>l\<in>set (logs data). \<not> sameKey u exId d' l) \<longrightarrow>
        logs (addSet g' u exId w' r' d' (addSet g u exId w r d data)) =
          logs (addSet g u exId w r d data) @ [newLog g' u exId d' [newSet g' w' r']]
        \<and> (\<exists>l\<in>set (logs (addSet g u exId w r d data)). sameKey u exId d l))"
  using addSet_existing[of data u exId d g w r] addSet_new[of data u exId d g w r]
    addSet_twice[of data u exId d g' w' r' g w r]
    addSet_other_date[of d d' data u exId g' w' r' g w r]
    addSet_keeps_key[of g u exId w r d data]
  by (simp add: addSet_exercises)

theorem addSet_appends_or_creates_witness:
  "logs (addSet fresh2 Adam ''adam_ex_2'' 105 3 ''2024-01-01'' oneLogDocument) =
     [\<lparr>log_id = ''1704067200000'', exerciseId = ''adam_ex_2'', user = Adam, date = ''2024-01-01'',
       sets = [\<lparr>set_id = ''s1'', weight = 100, reps = 5, timestamp = 1704067200000\<rparr>,
               \<lparr>set_id = ''s2'', weight = 105, reps = 3, timestamp = 1704067260000\<rparr>]\<rparr>]
   \<and> logs (addSet fresh2 Adam ''ex_1'' 100 5 ''2024-01-01''
          (addSet fresh1 Adam ''ex_1'' 100 5 ''2024-01-01'' emptyDocument)) =
     [\<lparr>log_id = ''1704067200000'', exerciseId = ''ex_1'', user = Adam, date = ''2024-01-01'',
       sets = [\<lparr>set_id = ''s1'', weight = 100, reps = 5, timestamp = 1704067200000\<rparr>,
               \<lparr>set_id = ''s2'', weight = 100, reps = 5, timestamp = 1704067260000\<rparr>]\<rparr>]
   \<and> logs (addSet fresh2 Adam ''ex_1'' 100 5 ''2024-01-02''
          (addSet fresh1 Adam ''ex_1'' 100 5 ''2024-01-01'' emptyDocument)) =
     [\<lparr>log_id = ''1704067200000'', exerciseId = ''ex_1'', user = Adam, date = ''2024-01-01'',
       sets = [\<lparr>set_id = ''s1'', weight = 100, reps = 5, timestamp = 1704067200000\<rparr>]\<rparr>,
      \<lparr>log_id = ''1704067260000'', exerciseId = ''ex_1'', user = Adam, date = ''2024-01-02'',
       sets = [\<lparr>set_id = ''s2'', weight = 100, reps = 5, timestamp = 1704067260000\<rparr>]\<rparr>]"
  using addSet_appends_or_creates[of emptyDocument Adam "''ex_1''" "''2024-01-01''" fresh1 100 5
          fresh2 100 5 "''2024-01-02''"]
    addSet_appends_or_creates[of oneLogDocument Adam "''adam_ex_2''" "''2024-01-01''" fresh2 105 3]
  by (simp add: emptyDocument_def oneLogDocument_def sameKey_def newLog_def newSet_def
        fresh1_def fresh2_def)

section \<open>Deleting a set\<close>

lemma deleteSet_missing:
  assumes "\<forall>l\<in>set (logs data). log_id l \<noteq> logId"
  shows "deleteSet logId setId data = (data, False)"
  using assms findIndex_None[of "\<lambda>l. log_id l = logId" "logs data"]
  by (simp add: deleteSet_def)

lemma deleteSet_found:
  assumes "\<exists>l\<in>set (logs data). log_id l = logId"
  shows "\<exists>i<length (logs data). log_id (logs data ! i) = logId
           \<and> (\<forall>j<i. log_id (logs data ! j) \<noteq> logId)
           \<and> deleteSet logId setId data =
               (if filter (\<lambda>s. set_id s \<noteq> setId) (sets (logs data ! i)) = []
                then data\<lparr>logs := filter (\<lambda>l. log_id l \<noteq> logId) (logs data)\<rparr>
                else data\<lparr>logs := (logs data)[i := (logs data ! i)
                        \<lparr>sets := filter (\<lambda>s. set_id s \<noteq> setId) (sets (logs data ! i))\<rparr>]\<rparr>,
                True)"
proof -
  from assms obtain i where i: "findIndex (\<lambda>l. log_id l = logId) (logs data) = Some i"
    using findIndex_None[of "\<lambda>l. log_id l = logId" "logs data"]
    by (cases "findIndex (\<lambda>l. log_id l = logId) (logs data)") auto
  note f = findIndex_Some[OF i]
  have "filter (\<lambda>l. log_id l \<noteq> logId) ((logs data)[i := (logs data ! i)\<lparr>sets := ss\<rparr>])
          = filter (\<lambda>l. log_id l \<noteq> logId) (logs data)" for ss
    using f by (intro filter_update_dropped) simp_all
  with f i have "deleteSet logId setId data =
               (if filter (\<lambda>s. set_id s \<noteq> setId) (sets (logs data ! i)) = []
                then data\<lparr>logs := filter (\<lambda>l. log_id l \<noteq> logId) (logs data)\<rparr>
                else data\<lparr>logs := (logs data)[i := (logs data ! i)
                        \<lparr>sets := filter (\<lambda>s. set_id s \<noteq> setId) (sets (logs data ! i))\<rparr>]\<rparr>,
                True)"
    by (simp add: deleteSet_def Let_def)
  with f show ?thesis by blast
qed

lemma deleteSet_no_empty_log:
  assumes "\<forall>l\<in>set (logs data). sets l \<noteq> []"
  shows "\<forall>l\<in>set (logs (fst (deleteSet logId setId data))). sets l \<noteq> []"
proof (cases "\<exists>l\<in>set (logs data). log_id l = logId")
  case False
  then show ?thesis using assms by (simp add: deleteSet_missing)
next
  case True
  from deleteSet_found[OF True, of setId] obtain i where
    d: "deleteSet logId setId data =
               (if filter (\<lambda>s. set_id s \<noteq> setId) (sets (logs data ! i)) = []
                then data\<lparr>logs := filter (\<lambda>l. log_id l \<noteq> logId) (logs data)\<rparr>
                else data\<lparr>logs := (logs data)[i := (logs data ! i)
                        \<lparr>sets := filter (\<lambda>s. set_id s \<noteq> setId) (sets (logs data ! i))\<rparr>]\<rparr>,
                True)"
    by blast
  show ?thesis
    unfolding d using assms by (auto dest!: set_update_cases)
qed

lemma deleteSet_exercises:
  "adamExercises (fst (deleteSet logId setId data)) = adamExercises data"
  "eliaExercises (fst (deleteSet logId setId data)) = eliaExercises data"
  by (simp_all add: deleteSet_def Let_def split: option.splits)

text \<open>
  C5. If no log has the id \<open>logId\<close>, \<^verbatim>\<open>deleteSet\<close> returns without saving and the document
  is as it was. Otherwise the sets with id \<open>setId\<close> are removed from the first log with
  that id; if no set is left the log is removed from the document (with it every log of
  that id), else the log stays with the remaining sets and nothing else changes. So a
  document without a log of no sets stays one. The exercises are untouched.
\<close>

theorem deleteSet_prunes:
  "((\<forall>l\<in>set (logs data). log_id l \<noteq> logId) \<longrightarrow> deleteSet logId setId data = (data, False))
   \<and> ((\<exists>l\<in>set (logs data). log_id l = logId) \<longrightarrow>
        (\<exists>i<length (logs data). log_id (logs data ! i) = logId
           \<and> (\<forall>j<i. log_id (logs data ! j) \<noteq> logId)
           \<and> deleteSet logId setId data =
               (if filter (\<lambda>s. set_id s \<noteq> setId) (sets (logs data ! i)) = []
                then data\<lparr>logs := filter (\<lambda>l. log_id l \<noteq> logId) (logs data)\<rparr>
                else data\<lparr>logs := (logs data)[i := (logs data ! i)
                        \<lparr>sets := filter (\<lambda>s. set_id s \<noteq> setId) (sets (logs data ! i))\<rparr>]\<rparr>,
                True)))
   \<and> ((\<forall>l\<in>set (logs data). sets l \<noteq> []) \<longrightarrow>
        (\<forall>l\<in>set (logs (fst (deleteSet logId setId data))). sets l \<noteq> []))
   \<and> adamExercises (fst (deleteSet logId setId data)) = adamExercises data
   \<and> eliaExercises (fst (deleteSet logId setId data)) = eliaExercises data"
  using deleteSet_missing[of data logId setId] deleteSet_found[of data logId setId]
    deleteSet_no_empty_log[of data logId setId]
  by (simp add: deleteSet_exercises)

theorem deleteSet_prunes_witness:
  "deleteSet ''1704067200000'' ''s1'' oneLogDocument = (oneLogDocument\<lparr>logs := []\<rparr>, True)
   \<and> deleteSet ''7'' ''s1'' oneLogDocument = (oneLogDocument, False)"
  using deleteSet_prunes[of oneLogDocument "''1704067200000''" "''s1''"]
    deleteSet_prunes[of oneLogDocument "''7''" "''s1''"]
  by (simp add: oneLogDocument_def)

section \<open>The comparison query\<close>

lemma matchingIds_resolvedIds:
  "matchingIds exerciseName data = filter (\<lambda>t. t \<noteq> []) (resolvedIds exerciseName data)"
  by (simp add: matchingIds_def resolvedIds_def Let_def split: option.splits)

text \<open>
  When no resolved exercise has the empty id, \<^verbatim>\<open>getLogsForComparison\<close> returns exactly the
  logs whose \<^verbatim>\<open>exerciseId\<close> is the id of a resolved exercise, in their order.
\<close>

lemma getLogsForComparison_spec:
  assumes "[] \<notin> set (resolvedIds exerciseName data)"
  shows "getLogsForComparison exerciseName data = comparisonSpec exerciseName data"
proof -
  from assms have "filter (\<lambda>t. t \<noteq> []) (resolvedIds exerciseName data) = resolvedIds exerciseName data"
    by (intro filter_True) auto
  then show ?thesis
    by (simp add: getLogsForComparison_def comparisonSpec_def matchingIds_resolvedIds)
qed

text \<open>
  Every log returned refers to an exercise of the given name in one of the catalogs.
\<close>

lemma find_SomeD: "find P xs = Some x \<Longrightarrow> x \<in> set xs \<and> P x"
  by (induction xs) (auto split: if_splits)

lemma getLogsForComparison_sound:
  assumes "l \<in> set (getLogsForComparison exerciseName data)"
  shows "\<exists>e\<in>set (adamExercises data) \<union> set (eliaExercises data).
           ex_name e = exerciseName \<and> ex_id e = exerciseId l"
proof -
  from assms have "exerciseId l \<in> set (resolvedIds exerciseName data)"
    by (auto simp: getLogsForComparison_def matchingIds_resolvedIds)
  then show ?thesis
    by (auto simp: resolvedIds_def split: option.splits dest!: find_SomeD[OF sym])
qed

text \<open>
  C8. The statement is that the logs returned are exactly those whose \<^verbatim>\<open>exerciseId\<close> is the
  id of an exercise resolved by name. The code drops a resolved id that is the empty
  string, since \<^verbatim>\<open>filter(Boolean)\<close> removes it together with \<^verbatim>\<open>undefined\<close>: for a document in
  which Adam's exercise named Squat has the id \<^verbatim>\<open>""\<close> and one log refers to it, the query
  for Squat returns no log, where the statement gives that log.
\<close>

theorem getLogsForComparison_drops_empty_id:
  "getLogsForComparison ''Squat'' emptyIdDocument = []
   \<and> resolvedIds ''Squat'' emptyIdDocument = [[]]
   \<and> comparisonSpec ''Squat'' emptyIdDocument = logs emptyIdDocument
   \<and> length (logs emptyIdDocument) = 1"
  by (simp add: getLogsForComparison_def comparisonSpec_def matchingIds_def resolvedIds_def
        emptyIdDocument_def Let_def)

end
